theory Spec2Isabelle
  imports Complex_Main "HOL-Library.Product_Lexorder"
begin

section \<open>Values and builtins of the host language\<close>

text \<open>
  The recommendation engine of \<^verbatim>\<open>backend/app.py\<close> receives the decoded JSON body of a
  POST request and reads a catalog that was loaded at start-up. A Python float is modelled
  by the real number that the double holds, and every arithmetic operation on floats rounds
  its exact result to the nearest double. NaN, the infinities and results beyond the
  largest double are outside the model. Python integers are unbounded and are modelled by
  \<open>int\<close>.
\<close>

datatype json =
    JNull
  | JBool bool
  | JInt int
  | JFloat real
  | JStr string
  | JArr "json list"
  | JObj "(string \<times> json) list"

datatype py_error = ValueError | TypeError | OverflowError | AttributeError

text \<open>Truthiness, as used by \<^verbatim>\<open>x or default\<close> and \<^verbatim>\<open>if x\<close>.\<close>

fun truthy :: "json \<Rightarrow> bool" where
  "truthy JNull = False"
| "truthy (JBool b) = b"
| "truthy (JInt n) = (n \<noteq> 0)"
| "truthy (JFloat r) = (r \<noteq> 0)"
| "truthy (JStr s) = (s \<noteq> [])"
| "truthy (JArr xs) = (xs \<noteq> [])"
| "truthy (JObj kvs) = (kvs \<noteq> [])"

text \<open>\<^verbatim>\<open>x or d\<close>\<close>

definition py_or :: "json \<Rightarrow> json \<Rightarrow> json" where
  "py_or x d = (if truthy x then x else d)"

text \<open>
  \<^verbatim>\<open>data.get(k, d)\<close> on the dictionary decoded from a JSON object; when a key is repeated
  in the object the decoder keeps the last value.
\<close>

definition dict_get :: "(string \<times> json) list \<Rightarrow> string \<Rightarrow> json \<Rightarrow> json" where
  "dict_get kvs k d = (case map_of (rev kvs) k of None \<Rightarrow> d | Some v \<Rightarrow> v)"

subsection \<open>Double-precision arithmetic\<close>

text \<open>
  \<open>ilog2 x\<close> is the exponent of a positive \<open>x\<close>: the integer \<open>e\<close> with
  \<open>2 powi e \<le> x < 2 powi (e + 1)\<close>.
\<close>

function ilog2 :: "real \<Rightarrow> int" where
  "ilog2 x = (if x \<le> 0 then 0
              else if 2 \<le> x then ilog2 (x / 2) + 1
              else if x < 1 then ilog2 (x * 2) - 1
              else 0)"
  by pat_completeness auto
termination
proof (relation "measure (\<lambda>x. if 1 \<le> x then nat \<lfloor>x\<rfloor> else nat \<lfloor>1 / x\<rfloor> + 1)")
  show "wf (measure (\<lambda>x::real. if 1 \<le> x then nat \<lfloor>x\<rfloor> else nat \<lfloor>1 / x\<rfloor> + 1))" by simp
next
  fix x :: real
  assume "\<not> x \<le> 0" "2 \<le> x"
  then have "\<lfloor>x / 2\<rfloor> < \<lfloor>x\<rfloor>" by linarith
  with \<open>2 \<le> x\<close> show "(x / 2, x) \<in> measure (\<lambda>x. if 1 \<le> x then nat \<lfloor>x\<rfloor> else nat \<lfloor>1 / x\<rfloor> + 1)"
    by simp
next
  fix x :: real
  assume a: "\<not> x \<le> 0" "\<not> 2 \<le> x" "x < 1"
  show "(x * 2, x) \<in> measure (\<lambda>x. if 1 \<le> x then nat \<lfloor>x\<rfloor> else nat \<lfloor>1 / x\<rfloor> + 1)"
  proof (cases "1 \<le> x * 2")
    case True
    with a have "\<lfloor>x * 2\<rfloor> = 1" by linarith
    moreover from a have "1 \<le> 1 / x" by simp
    then have "1 \<le> \<lfloor>1 / x\<rfloor>" by linarith
    ultimately show ?thesis using True a by simp
  next
    case False
    with a have "2 \<le> 1 / x" by (simp add: field_simps)
    moreover have "1 / (x * 2) = (1 / x) / 2" by simp
    ultimately have "\<lfloor>1 / (x * 2)\<rfloor> < \<lfloor>1 / x\<rfloor>" by linarith
    moreover from \<open>2 \<le> 1 / x\<close> have "0 < \<lfloor>1 / x\<rfloor>" by linarith
    ultimately show ?thesis using False a by simp
  qed
qed

declare ilog2.simps [simp del]

text \<open>Rounding to the nearest integer, ties to the even one.\<close>

definition round_half_even :: "real \<Rightarrow> int" where
  "round_half_even y =
     (let f = \<lfloor>y\<rfloor>; d = y - of_int f in
      if d < 1 / 2 then f
      else if 1 / 2 < d then f + 1
      else if even f then f else f + 1)"

text \<open>
  Rounding to the nearest double, ties to even: 53 significant bits, and below
  \<open>2 powi (- 1022)\<close> the fixed spacing \<open>2 powi (- 1074)\<close> of the subnormal numbers.
\<close>

definition round_double :: "real \<Rightarrow> real" where
  "round_double x =
     (let e = max (ilog2 \<bar>x\<bar>) (- 1022);
          q = 2 powi (e - 52)
      in of_int (round_half_even (x / q)) * q)"

text \<open>\<^verbatim>\<open>x + y\<close>, \<^verbatim>\<open>x - y\<close> and \<^verbatim>\<open>x * y\<close> on floats.\<close>

definition float_add :: "real \<Rightarrow> real \<Rightarrow> real" where
  "float_add x y = round_double (x + y)"

definition float_sub :: "real \<Rightarrow> real \<Rightarrow> real" where
  "float_sub x y = round_double (x - y)"

definition float_mul :: "real \<Rightarrow> real \<Rightarrow> real" where
  "float_mul x y = round_double (x * y)"

subsection \<open>Conversions\<close>

text \<open>
  What \<^verbatim>\<open>float(s)\<close> and \<^verbatim>\<open>int(s)\<close> do on a string is a parameter of the model:
  \<open>None\<close> stands for \<^verbatim>\<open>ValueError\<close>.
\<close>

record str_conv =
  float_of_str :: "string \<Rightarrow> real option"
  int_of_str :: "string \<Rightarrow> int option"

text \<open>
  \<^verbatim>\<open>float(v)\<close>. An integer that rounds beyond the largest finite double raises
  \<^verbatim>\<open>OverflowError\<close>; \<^verbatim>\<open>None\<close>, lists and dictionaries raise \<^verbatim>\<open>TypeError\<close>.
\<close>

definition float_max_int :: int where
  "float_max_int = 2 ^ 1024 - 2 ^ 970"

fun py_float :: "str_conv \<Rightarrow> json \<Rightarrow> py_error + real" where
  "py_float sc JNull = Inl TypeError"
| "py_float sc (JBool b) = Inr (if b then 1 else 0)"
| "py_float sc (JInt n) =
     (if \<bar>n\<bar> \<ge> float_max_int then Inl OverflowError else Inr (round_double (of_int n)))"
| "py_float sc (JFloat r) = Inr r"
| "py_float sc (JStr s) = (case float_of_str sc s of None \<Rightarrow> Inl ValueError | Some r \<Rightarrow> Inr r)"
| "py_float sc (JArr xs) = Inl TypeError"
| "py_float sc (JObj kvs) = Inl TypeError"

text \<open>\<^verbatim>\<open>int(v)\<close>; a float is truncated towards zero.\<close>

fun py_int :: "str_conv \<Rightarrow> json \<Rightarrow> py_error + int" where
  "py_int sc JNull = Inl TypeError"
| "py_int sc (JBool b) = Inr (if b then 1 else 0)"
| "py_int sc (JInt n) = Inr n"
| "py_int sc (JFloat r) = Inr (if r \<ge> 0 then \<lfloor>r\<rfloor> else \<lceil>r\<rceil>)"
| "py_int sc (JStr s) = (case int_of_str sc s of None \<Rightarrow> Inl ValueError | Some n \<Rightarrow> Inr n)"
| "py_int sc (JArr xs) = Inl TypeError"
| "py_int sc (JObj kvs) = Inl TypeError"

text \<open>
  \<^verbatim>\<open>try: x = float(v)  except ValueError: x = 0.0\<close> and its \<^verbatim>\<open>int\<close> sibling: only
  \<^verbatim>\<open>ValueError\<close> is caught, every other exception propagates.
\<close>

definition try_float :: "str_conv \<Rightarrow> json \<Rightarrow> py_error + real" where
  "try_float sc v = (case py_float sc v of Inl ValueError \<Rightarrow> Inr 0 | Inl e \<Rightarrow> Inl e | Inr r \<Rightarrow> Inr r)"

definition try_int :: "str_conv \<Rightarrow> json \<Rightarrow> py_error + int" where
  "try_int sc v = (case py_int sc v of Inl ValueError \<Rightarrow> Inr 0 | Inl e \<Rightarrow> Inl e | Inr n \<Rightarrow> Inr n)"

text \<open>Sequencing of steps that may raise.\<close>

definition and_then :: "py_error + 'a \<Rightarrow> ('a \<Rightarrow> py_error + 'b) \<Rightarrow> py_error + 'b" where
  "and_then x f = (case x of Inl e \<Rightarrow> Inl e | Inr v \<Rightarrow> f v)"

text \<open>
  \<^verbatim>\<open>str.upper\<close>, \<^verbatim>\<open>str.lower\<close>, \<^verbatim>\<open>str.strip\<close>, \<^verbatim>\<open>str.split\<close> and \<^verbatim>\<open>str.title\<close> on
  ASCII text; other bytes are left as they are.
\<close>

definition is_lower :: "char \<Rightarrow> bool" where
  "is_lower c = (97 \<le> (of_char c :: nat) \<and> (of_char c :: nat) \<le> 122)"

definition is_upper :: "char \<Rightarrow> bool" where
  "is_upper c = (65 \<le> (of_char c :: nat) \<and> (of_char c :: nat) \<le> 90)"

definition upper_char :: "char \<Rightarrow> char" where
  "upper_char c = (if is_lower c then char_of ((of_char c :: nat) - 32) else c)"

definition lower_char :: "char \<Rightarrow> char" where
  "lower_char c = (if is_upper c then char_of ((of_char c :: nat) + 32) else c)"

definition upper :: "string \<Rightarrow> string" where
  "upper s = map upper_char s"

definition lower :: "string \<Rightarrow> string" where
  "lower s = map lower_char s"

definition is_space :: "char \<Rightarrow> bool" where
  "is_space c = ((of_char c :: nat) \<in> {9, 10, 11, 12, 13, 28, 29, 30, 31, 32})"

definition strip :: "string \<Rightarrow> string" where
  "strip s = rev (dropWhile is_space (rev (dropWhile is_space s)))"

fun split_ws :: "string \<Rightarrow> string \<Rightarrow> string list" where
  "split_ws cur [] = (if cur = [] then [] else [rev cur])"
| "split_ws cur (c # cs) =
     (if is_space c then (if cur = [] then split_ws [] cs else rev cur # split_ws [] cs)
      else split_ws (c # cur) cs)"

fun title_from :: "bool \<Rightarrow> string \<Rightarrow> string" where
  "title_from prev_cased [] = []"
| "title_from prev_cased (c # cs) =
     (if is_lower c \<or> is_upper c
      then (if prev_cased then lower_char c else upper_char c) # title_from True cs
      else c # title_from False cs)"

definition title :: "string \<Rightarrow> string" where
  "title s = title_from False s"

section \<open>The catalog\<close>

text \<open>
  Countries, universities and courses are the typed records of the data model: a field that
  is present holds a value of its type, and an optional field is \<open>None\<close> when its key is
  absent. A number of the catalog is a double. Only the fields that the filter, the
  classifiers and the ranking read are kept.
\<close>

record course =
  c_id :: string
  subject_cluster :: "string option"
  min_cgpa_india :: "real option"
  max_backlogs :: "int option"
  accepts_backlog_history :: "bool option"
  tuition_fee_lakhs :: "real option"
  estimated_living_lakhs :: "real option"
  extra_costs_lakhs :: "real option"
  min_ielts_overall :: "real option"
  min_pte_overall :: "real option"
  min_duolingo :: "real option"
  inter_english_ok :: bool
  math_required :: bool
  work_exp_required_years :: "real option"

record university =
  u_name :: string
  visa_risk :: "string option"
  courses :: "course list"

record country =
  code :: string
  allow_inter_english :: bool
  universities :: "university list"

record merged =
  m_country_code :: string
  m_country :: country
  m_university :: university
  m_course :: course

text \<open>\<^verbatim>\<open>load_db\<close>: the flat list of courses, in catalog order.\<close>

definition flat_courses :: "country list \<Rightarrow> merged list" where
  "flat_courses countries =
     concat (map (\<lambda>c. concat (map (\<lambda>u. map (\<lambda>k.
        \<lparr>m_country_code = code c, m_country = c, m_university = u, m_course = k\<rparr>)
        (courses u)) (universities c))) countries)"

text \<open>\<^verbatim>\<open>COUNTRY_BY_CODE\<close>: a later country with the same code replaces an earlier one.\<close>

definition COUNTRY_BY_CODE :: "country list \<Rightarrow> string \<Rightarrow> country option" where
  "COUNTRY_BY_CODE countries = map_of (rev (map (\<lambda>c. (code c, c)) countries))"

section \<open>Helper functions\<close>

definition month_from_intake_string :: "json \<Rightarrow> py_error + string" where
  "month_from_intake_string v =
     (if \<not> truthy v then Inr []
      else case v of
        JStr s \<Rightarrow> (case split_ws [] (strip s) of [] \<Rightarrow> Inr [] | p # _ \<Rightarrow> Inr (title (take 3 p)))
      | _ \<Rightarrow> Inl AttributeError)"

definition classify_level :: "real \<Rightarrow> real option \<Rightarrow> string" where
  "classify_level cgpa min_cgpa =
     (case min_cgpa of
        None \<Rightarrow> ''unknown''
      | Some m \<Rightarrow>
          (let diff = float_sub cgpa m in
           if diff \<ge> 1 then ''safe''
           else if diff \<ge> 0 then ''moderate''
           else if diff \<ge> - (1 / 2) then ''ambitious''
           else ''reject''))"

text \<open>The literal \<^verbatim>\<open>0.8\<close> is the double nearest to 8/10.\<close>

definition budget_fit_label :: "real \<Rightarrow> real \<Rightarrow> string" where
  "budget_fit_label total_cost budget =
     (if budget \<le> 0 then ''unknown''
      else if total_cost \<le> float_mul (round_double (8 / 10)) budget then ''very_comfortable''
      else if total_cost \<le> budget then ''tight_but_possible''
      else ''over_budget'')"

text \<open>The student profile built once per request.\<close>

record profile =
  p_name :: json
  country_code :: string
  cgpa :: real
  backlogs_count :: int
  english_proof_type :: "string option"
  english_score :: real
  budget_lakhs :: real
  work_ex_years :: real
  non_math_background :: json
  target_intake :: json
  intake_month :: string

definition english_ok_for_course :: "country list \<Rightarrow> course \<Rightarrow> profile \<Rightarrow> bool \<times> bool" where
  "english_ok_for_course countries course profile =
     (let proof_type = english_proof_type profile;
          score = english_score profile;
          min_ielts = min_ielts_overall course;
          min_pte = min_pte_overall course;
          min_duo = min_duolingo course;
          inter_ok = inter_english_ok course
      in
      if proof_type = Some ''none'' \<or> proof_type = None \<or> proof_type = Some [] then (False, True)
      else if proof_type = Some ''ielts'' then
        (case min_ielts of None \<Rightarrow> (True, False) | Some m \<Rightarrow> (score \<ge> m, score < m))
      else if proof_type = Some ''pte'' then
        (case min_pte of None \<Rightarrow> (True, False) | Some m \<Rightarrow> (score \<ge> m, score < m))
      else if proof_type = Some ''duolingo'' then
        (case min_duo of None \<Rightarrow> (True, False) | Some m \<Rightarrow> (score \<ge> m, score < m))
      else if proof_type = Some ''inter'' \<or> proof_type = Some ''medium'' then
        (if inter_ok \<and>
            (case COUNTRY_BY_CODE countries (country_code profile) of
               None \<Rightarrow> False | Some c \<Rightarrow> allow_inter_english c)
         then (True, False) else (False, True))
      else (False, True))"

record risk_flags =
  budget_risk :: bool
  english_gap :: bool
  cgpa_gap :: bool
  math_risk :: bool
  workex_gap :: bool
  visa_risk_high :: bool

definition compute_risk_flags ::
    "merged \<Rightarrow> profile \<Rightarrow> string \<Rightarrow> bool \<Rightarrow> string \<Rightarrow> risk_flags" where
  "compute_risk_flags mg profile level english_gp budget_lbl =
     (let course = m_course mg; uni = m_university mg in
      \<lparr>budget_risk = (budget_lbl = ''over_budget''),
       english_gap = english_gp,
       cgpa_gap = (level = ''ambitious''),
       math_risk = (math_required course \<and> truthy (non_math_background profile)),
       workex_gap = ((case work_exp_required_years course of None \<Rightarrow> 0 | Some y \<Rightarrow> y)
                      > work_ex_years profile),
       visa_risk_high = (visa_risk uni = Some ''high'')\<rparr>)"

text \<open>
  The recommendation card. The narrative fields (reasons, pros, cons, advice text, labels)
  are assembled from catalog text only and are not part of the model.
\<close>

record card =
  course_id :: string
  level_band :: string
  tuition :: real
  living :: real
  extra :: real
  total_first_year_cost_lakhs :: real
  budget_label :: string
  english_ok_now :: bool
  risks :: risk_flags

text \<open>
  \<^verbatim>\<open>course.get(k, 0) or 0\<close>. In \<open>build_course_response\<close> the call \<^verbatim>\<open>float(...)\<close> around it
  and around the budget is \<open>round_double\<close>, and the total is the float sum taken from
  left to right.
\<close>

definition or_0 :: "real option \<Rightarrow> real" where
  "or_0 v = (case v of None \<Rightarrow> 0 | Some r \<Rightarrow> r)"

definition build_course_response :: "country list \<Rightarrow> merged \<Rightarrow> profile \<Rightarrow> card option" where
  "build_course_response countries mg profile =
     (let course = m_course mg;
          min_cgpa = or_0 (min_cgpa_india course);
          level = classify_level (cgpa profile) (Some min_cgpa)
      in
      if level = ''reject'' then None
      else
        (let tuition_v = round_double (or_0 (tuition_fee_lakhs course));
             living_v = round_double (or_0 (estimated_living_lakhs course));
             extra_v = round_double (or_0 (extra_costs_lakhs course));
             total = float_add (float_add tuition_v living_v) extra_v;
             budget_v = round_double (budget_lakhs profile);
             budget_lbl = budget_fit_label total budget_v;
             (english_ok, english_gp) = english_ok_for_course countries course profile;
             rs = compute_risk_flags mg profile level english_gp budget_lbl
         in Some \<lparr>course_id = c_id course,
                  level_band = level,
                  tuition = tuition_v,
                  living = living_v,
                  extra = extra_v,
                  total_first_year_cost_lakhs = total,
                  budget_label = budget_lbl,
                  english_ok_now = english_ok,
                  risks = rs\<rparr>))"

section \<open>The recommendation endpoint\<close>

text \<open>\<^verbatim>\<open>data = request.get_json(force=True) or {}\<close>, then \<^verbatim>\<open>data.get\<close>.\<close>

definition request_data :: "json \<Rightarrow> py_error + (string \<times> json) list" where
  "request_data body =
     (if \<not> truthy body then Inr []
      else case body of JObj kvs \<Rightarrow> Inr kvs | _ \<Rightarrow> Inl AttributeError)"

definition country_code_of :: "(string \<times> json) list \<Rightarrow> py_error + string" where
  "country_code_of data =
     (case py_or (dict_get data ''country_code'' JNull) (JStr ''UK'') of
        JStr s \<Rightarrow> Inr (upper s)
      | _ \<Rightarrow> Inl AttributeError)"

text \<open>
  \<^verbatim>\<open>subject_clusters = data.get("subject_clusters") or []\<close> followed by the comprehension
  that drops falsy entries; iterating a string gives its characters, a dictionary its keys,
  a number or \<^verbatim>\<open>True\<close> raises.
\<close>

definition subject_clusters_of :: "(string \<times> json) list \<Rightarrow> py_error + json list" where
  "subject_clusters_of data =
     (case py_or (dict_get data ''subject_clusters'' JNull) (JArr []) of
        JArr xs \<Rightarrow> Inr (filter truthy xs)
      | JStr s \<Rightarrow> Inr (filter truthy (map (\<lambda>c. JStr [c]) s))
      | JObj kvs \<Rightarrow> Inr (filter truthy (map (\<lambda>kv. JStr (fst kv)) kvs))
      | _ \<Rightarrow> Inl TypeError)"

definition english_proof_type_of :: "(string \<times> json) list \<Rightarrow> py_error + string" where
  "english_proof_type_of data =
     (case py_or (dict_get data ''english_proof_type'' JNull) (JStr []) of
        JStr s \<Rightarrow> Inr (lower s)
      | _ \<Rightarrow> Inl AttributeError)"

text \<open>The basic fields, in the order in which \<^verbatim>\<open>recommend\<close> reads them.\<close>

definition build_profile ::
    "str_conv \<Rightarrow> (string \<times> json) list \<Rightarrow> string \<Rightarrow> py_error + (profile \<times> json list)" where
  "build_profile sc data cc =
     and_then (try_float sc (dict_get data ''cgpa'' (JInt 0))) (\<lambda>cgpa_v.
     and_then (try_float sc (dict_get data ''budget_lakhs'' (JInt 0))) (\<lambda>budget_v.
     and_then (try_int sc (dict_get data ''backlogs_count'' (JInt 0))) (\<lambda>backlogs.
     and_then (try_float sc (dict_get data ''work_ex_years'' (JInt 0))) (\<lambda>work_ex.
     and_then (try_float sc (dict_get data ''english_score'' (JInt 0))) (\<lambda>score.
     and_then (subject_clusters_of data) (\<lambda>clusters.
     and_then (month_from_intake_string (dict_get data ''target_intake'' (JStr []))) (\<lambda>month.
     and_then (english_proof_type_of data) (\<lambda>proof_type.
       Inr (\<lparr>p_name = py_or (dict_get data ''name'' JNull) (JStr ''Student''),
             country_code = cc,
             cgpa = cgpa_v,
             backlogs_count = backlogs,
             english_proof_type = Some proof_type,
             english_score = score,
             budget_lakhs = budget_v,
             work_ex_years = work_ex,
             non_math_background = dict_get data ''non_math_background'' (JBool False),
             target_intake = dict_get data ''target_intake'' (JStr []),
             intake_month = month\<rparr>, clusters)))))))))"

text \<open>The hard filter: country, subject, backlogs and CGPA.\<close>

definition hard_filter :: "string \<Rightarrow> json list \<Rightarrow> int \<Rightarrow> real \<Rightarrow> merged \<Rightarrow> bool" where
  "hard_filter cc clusters backlogs cgpa_v mg =
     (let course = m_course mg;
          cluster = (case subject_cluster course of None \<Rightarrow> [] | Some s \<Rightarrow> s)
      in
      if m_country_code mg \<noteq> cc then False
      else if clusters \<noteq> [] \<and> JStr cluster \<notin> set clusters then False
      else if (case max_backlogs course of None \<Rightarrow> False | Some mb \<Rightarrow> backlogs > mb) then False
      else if \<not> (case accepts_backlog_history course of None \<Rightarrow> True | Some b \<Rightarrow> b) \<and> backlogs > 0
        then False
      else if classify_level cgpa_v (Some (or_0 (min_cgpa_india course))) = ''reject'' then False
      else True)"

definition matches :: "country list \<Rightarrow> profile \<Rightarrow> json list \<Rightarrow> merged list" where
  "matches countries profile clusters =
     filter (hard_filter (country_code profile) clusters (backlogs_count profile) (cgpa profile))
       (flat_courses countries)"

definition course_items :: "country list \<Rightarrow> profile \<Rightarrow> merged list \<Rightarrow> card list" where
  "course_items countries profile ms =
     List.map_filter (\<lambda>mg. build_course_response countries mg profile) ms"

definition ambitious_items :: "card list \<Rightarrow> card list" where
  "ambitious_items items = filter (\<lambda>c. level_band c = ''ambitious'') items"

definition level_order :: "string \<Rightarrow> nat" where
  "level_order band =
     (if band = ''safe'' then 0
      else if band = ''moderate'' then 1
      else if band = ''ambitious'' then 2
      else 3)"

definition sort_items :: "card list \<Rightarrow> card list" where
  "sort_items items =
     sort_key (\<lambda>c. (level_order (level_band c), total_first_year_cost_lakhs c)) items"

definition requested_count :: "str_conv \<Rightarrow> (string \<times> json) list \<Rightarrow> py_error + int" where
  "requested_count sc data =
     and_then (py_int sc (py_or (dict_get data ''requested_count'' (JInt 5)) (JInt 5)))
       (\<lambda>n. Inr (max 1 (min n 15)))"

text \<open>
  Sort, truncate, and add one ambitious card when the top of the list holds none. The
  count is at least 1 where \<open>recommend\<close> calls this, so the slice is a prefix.
\<close>

definition select_items :: "card list \<Rightarrow> int \<Rightarrow> card list" where
  "select_items items n =
     (let ambitious = ambitious_items items;
          top = take (nat n) (sort_items items)
      in
      if \<not> list_ex (\<lambda>c. level_band c = ''ambitious'') top \<and> ambitious \<noteq> []
      then top @ [hd ambitious] else top)"

text \<open>
  The response keeps the echoed profile, the statistics and the recommendations; the
  time stamp, the country summary and the global advice are not part of the model.
\<close>

record stats =
  total_matches_before_limit :: nat
  total_shown :: nat
  safe_count :: nat
  moderate_count :: nat
  ambitious_count :: nat

record response =
  student_profile :: profile
  response_stats :: stats
  recommendations :: "card list"

datatype http_result = BadRequest | Ok response

definition count_band :: "string \<Rightarrow> card list \<Rightarrow> nat" where
  "count_band band items = length (filter (\<lambda>c. level_band c = band) items)"

definition recommend :: "str_conv \<Rightarrow> country list \<Rightarrow> json \<Rightarrow> py_error + http_result" where
  "recommend sc countries body =
     and_then (request_data body) (\<lambda>data.
     and_then (country_code_of data) (\<lambda>cc.
       case COUNTRY_BY_CODE countries cc of
         None \<Rightarrow> Inr BadRequest
       | Some ctry \<Rightarrow>
           and_then (build_profile sc data cc) (\<lambda>(profile, clusters).
             let ms = matches countries profile clusters;
                 pool = course_items countries profile ms
             in
             and_then (requested_count sc data) (\<lambda>n.
               let shown = select_items pool n in
               Inr (Ok \<lparr>student_profile = profile,
                        response_stats =
                          \<lparr>total_matches_before_limit = length ms,
                           total_shown = length shown,
                           safe_count = count_band ''safe'' shown,
                           moderate_count = count_band ''moderate'' shown,
                           ambitious_count = count_band ''ambitious'' shown\<rparr>,
                        recommendations = shown\<rparr>)))))"

text \<open>The sort key of \<^verbatim>\<open>course_items.sort\<close>: the rank of the band, then the total cost.\<close>

definition sort_key_of :: "card \<Rightarrow> nat \<times> real" where
  "sort_key_of c = (level_order (level_band c), total_first_year_cost_lakhs c)"

section \<open>An example catalog and request\<close>

text \<open>
  One country with six courses, and a request with a CGPA of 8 that asks for two
  recommendations. The string conversions of the example accept one string each.
\<close>

definition ex_conv :: str_conv where
  "ex_conv = \<lparr>float_of_str = (\<lambda>s. if s = ''8.5'' then Some (17 / 2) else None),
              int_of_str = (\<lambda>s. if s = ''8'' then Some 8 else None)\<rparr>"

definition ex_course :: "string \<Rightarrow> real \<Rightarrow> real \<Rightarrow> course" where
  "ex_course i mn fee =
     \<lparr>c_id = i, subject_cluster = Some ''data_science'', min_cgpa_india = Some mn,
      max_backlogs = None, accepts_backlog_history = None,
      tuition_fee_lakhs = Some fee, estimated_living_lakhs = None, extra_costs_lakhs = None,
      min_ielts_overall = Some 6, min_pte_overall = None, min_duolingo = None,
      inter_english_ok = True, math_required = False, work_exp_required_years = None\<rparr>"

text \<open>A course that states no minimum CGPA.\<close>

definition ex_open :: course where
  "ex_open = (ex_course ''open1'' 0 12)\<lparr>min_cgpa_india := None\<rparr>"

definition ex_courses :: "course list" where
  "ex_courses = [ex_course ''amb1'' (33 / 4) 30, ex_course ''amb2'' (17 / 2) 10,
                 ex_course ''safe1'' 7 20, ex_course ''mod1'' (15 / 2) 15,
                 ex_course ''rej1'' 9 5, ex_open]"

definition ex_university :: university where
  "ex_university = \<lparr>u_name = ''Uni'', visa_risk = None, courses = ex_courses\<rparr>"

definition ex_country :: country where
  "ex_country = \<lparr>code = ''UK'', allow_inter_english = True, universities = [ex_university]\<rparr>"

definition ex_catalog :: "country list" where
  "ex_catalog = [ex_country]"

definition ex_merged :: "course \<Rightarrow> merged" where
  "ex_merged k = \<lparr>m_country_code = ''UK'', m_country = ex_country,
                  m_university = ex_university, m_course = k\<rparr>"

definition ex_data :: "(string \<times> json) list" where
  "ex_data = [(''cgpa'', JInt 8), (''budget_lakhs'', JInt 30),
              (''english_proof_type'', JStr ''IELTS''), (''english_score'', JFloat (13 / 2)),
              (''requested_count'', JInt 2)]"

definition ex_profile :: profile where
  "ex_profile =
     \<lparr>p_name = JStr ''Student'', country_code = ''UK'', cgpa = 8, backlogs_count = 0,
      english_proof_type = Some ''ielts'', english_score = 13 / 2, budget_lakhs = 30,
      work_ex_years = 0, non_math_background = JBool False, target_intake = JStr [],
      intake_month = []\<rparr>"

definition ex_card :: "string \<Rightarrow> string \<Rightarrow> real \<Rightarrow> string \<Rightarrow> card" where
  "ex_card i band fee lbl =
     \<lparr>course_id = i, level_band = band, tuition = fee, living = 0, extra = 0,
      total_first_year_cost_lakhs = fee, budget_label = lbl, english_ok_now = True,
      risks = \<lparr>budget_risk = False, english_gap = False, cgpa_gap = (band = ''ambitious''),
               math_risk = False, workex_gap = False, visa_risk_high = False\<rparr>\<rparr>"

definition ex_pool :: "card list" where
  "ex_pool = [ex_card ''amb1'' ''ambitious'' 30 ''tight_but_possible'',
              ex_card ''amb2'' ''ambitious'' 10 ''very_comfortable'',
              ex_card ''safe1'' ''safe'' 20 ''very_comfortable'',
              ex_card ''mod1'' ''moderate'' 15 ''very_comfortable'',
              ex_card ''open1'' ''safe'' 12 ''very_comfortable'']"

definition ex_response :: response where
  "ex_response =
     \<lparr>student_profile = ex_profile,
      response_stats = \<lparr>total_matches_before_limit = 5, total_shown = 3,
                         safe_count = 2, moderate_count = 0, ambitious_count = 1\<rparr>,
      recommendations = [ex_card ''open1'' ''safe'' 12 ''very_comfortable'',
                         ex_card ''safe1'' ''safe'' 20 ''very_comfortable'',
                         ex_card ''amb1'' ''ambitious'' 30 ''tight_but_possible'']\<rparr>"


definition double_0_8 :: real where
  "double_0_8 = 3602879701896397 / 4503599627370496"

definition smallest_double :: real where
  "smallest_double = 2 powi (- 1074)"

section \<open>Properties of double rounding\<close>

lemma powi_Suc: "(2::real) powi (k + 1) = 2 * 2 powi k"
  by (simp add: power_int_add)

lemma ilog2_bounds:
  "0 < x \<Longrightarrow> 2 powi ilog2 x \<le> x \<and> x < 2 powi (ilog2 x + 1)"
proof (induction x rule: ilog2.induct)
  case (1 x)
  show ?case
  proof (cases "2 \<le> x")
    case True
    with 1 have ih: "2 powi ilog2 (x / 2) \<le> x / 2 \<and> x / 2 < 2 powi (ilog2 (x / 2) + 1)"
      by simp
    from True 1 have e: "ilog2 x = ilog2 (x / 2) + 1"
      by (subst ilog2.simps) simp
    from ih show ?thesis unfolding e powi_Suc by linarith
  next
    case False
    show ?thesis
    proof (cases "x < 1")
      case True
      with 1 False have ih: "2 powi ilog2 (x * 2) \<le> x * 2 \<and> x * 2 < 2 powi (ilog2 (x * 2) + 1)"
        by simp
      from True False 1 have e: "ilog2 x = ilog2 (x * 2) - 1"
        by (subst ilog2.simps) simp
      have "(2::real) powi ilog2 (x * 2) = 2 * 2 powi (ilog2 (x * 2) - 1)"
        using powi_Suc [of "ilog2 (x * 2) - 1"] by simp
      with ih show ?thesis unfolding e by (simp add: powi_Suc)
    next
      case b: False
      with False 1 have e: "ilog2 x = 0"
        by (subst ilog2.simps) simp
      from b False show ?thesis unfolding e by simp
    qed
  qed
qed

lemma ilog2_unique:
  assumes "0 < x" "2 powi e \<le> x" "x < 2 powi (e + 1)"
  shows "ilog2 x = e"
proof -
  from ilog2_bounds [OF assms(1)] have b: "2 powi ilog2 x \<le> x" "x < 2 powi (ilog2 x + 1)"
    by simp_all
  have "ilog2 x < e + 1"
  proof (rule ccontr)
    assume "\<not> ilog2 x < e + 1"
    then have "(2::real) powi (e + 1) \<le> 2 powi ilog2 x"
      by (intro power_int_increasing) simp_all
    with b(1) assms(3) show False by linarith
  qed
  moreover have "e < ilog2 x + 1"
  proof (rule ccontr)
    assume "\<not> e < ilog2 x + 1"
    then have "(2::real) powi (ilog2 x + 1) \<le> 2 powi e"
      by (intro power_int_increasing) simp_all
    with b(2) assms(2) show False by linarith
  qed
  ultimately show ?thesis by simp
qed

lemma ilog2_mono:
  assumes "0 < x" "x \<le> y"
  shows "ilog2 x \<le> ilog2 y"
proof (rule ccontr)
  assume "\<not> ilog2 x \<le> ilog2 y"
  then have "(2::real) powi (ilog2 y + 1) \<le> 2 powi ilog2 x"
    by (intro power_int_increasing) simp_all
  moreover from assms have "0 < y" by simp
  ultimately show False
    using ilog2_bounds [OF assms(1)] ilog2_bounds [OF \<open>0 < y\<close>] assms(2) by linarith
qed

lemma round_half_even_le:
  assumes "y \<le> of_int k"
  shows "round_half_even y \<le> k"
proof (cases "y = of_int k")
  case True
  then show ?thesis by (simp add: round_half_even_def)
next
  case False
  with assms have "y < of_int k" by simp
  then have "\<lfloor>y\<rfloor> + 1 \<le> k" by linarith
  then show ?thesis by (simp add: round_half_even_def Let_def)
qed

lemma round_double_le:
  assumes "0 < x" "x \<le> y" "round_double y = y"
  shows "round_double x \<le> y"
proof -
  define ex where "ex = max (ilog2 \<bar>x\<bar>) (- 1022)"
  define ey where "ey = max (ilog2 \<bar>y\<bar>) (- 1022)"
  define qx :: real where "qx = 2 powi (ex - 52)"
  define qy :: real where "qy = 2 powi (ey - 52)"
  define ky where "ky = round_half_even (y / qy)"
  from assms have "ilog2 \<bar>x\<bar> \<le> ilog2 \<bar>y\<bar>" by (intro ilog2_mono) simp_all
  then have le: "ex \<le> ey" by (simp add: ex_def ey_def)
  have qx: "0 < qx" by (simp add: qx_def)
  have pw: "(2::real) powi (ey - ex) = 2 ^ nat (ey - ex)"
    using le by (simp add: power_int_def)
  have "qy = 2 powi ((ey - ex) + (ex - 52))"
    by (simp add: qy_def)
  also have "\<dots> = 2 powi (ey - ex) * qx"
    unfolding qx_def by (rule power_int_add) simp
  also note pw
  finally have qy: "qy = of_int (2 ^ nat (ey - ex)) * qx" by simp
  from assms(3) have "y = of_int ky * qy"
    by (simp add: round_double_def Let_def ey_def qy_def ky_def)
  with qy have y: "y = of_int (ky * 2 ^ nat (ey - ex)) * qx" by simp
  with qx have "y / qx = of_int (ky * 2 ^ nat (ey - ex))" by simp
  moreover from assms(2) qx have "x / qx \<le> y / qx" by (simp add: divide_right_mono)
  ultimately have "round_half_even (x / qx) \<le> ky * 2 ^ nat (ey - ex)"
    by (intro round_half_even_le) simp
  then have "of_int (round_half_even (x / qx)) * qx \<le> of_int (ky * 2 ^ nat (ey - ex)) * qx"
    using qx by (simp only: mult_le_cancel_right_pos of_int_le_iff)
  with y show ?thesis
    by (simp add: round_double_def Let_def ex_def qx_def)
qed












lemma round_double_eval:
  assumes "0 < x" "2 powi e \<le> x" "x < 2 powi (e + 1)"
  shows "round_double x =
           of_int (round_half_even (x / 2 powi (max e (- 1022) - 52))) * 2 powi (max e (- 1022) - 52)"
  using ilog2_unique [OF assms] assms(1) by (simp add: round_double_def Let_def)

lemma round_double_0_8:
  "round_double (8 / 10) = double_0_8"
  "round_double (4 / 5) = double_0_8"
  unfolding double_0_8_def by code_simp+



lemma smallest_double_pos: "0 < smallest_double"
  by (simp add: smallest_double_def)

lemma round_double_smallest: "round_double smallest_double = smallest_double"
proof -
  have "round_double smallest_double =
      of_int (round_half_even (smallest_double / 2 powi (max (- 1074) (- 1022) - 52)))
        * 2 powi (max (- 1074) (- 1022) - 52)"
  proof (rule round_double_eval [OF smallest_double_pos])
    show "2 powi (- 1074) \<le> smallest_double" by (simp add: smallest_double_def)
    have "(2::real) powi (- 1074) < 2 powi (- 1073)"
      by (rule power_int_strict_increasing) simp_all
    then show "smallest_double < 2 powi (- 1074 + 1)" by (simp add: smallest_double_def)
  qed
  also have "max (- 1074) (- 1022) - 52 = (- 1074 :: int)" by simp
  also have "smallest_double / 2 powi (- 1074) = 1" by (simp add: smallest_double_def)
  also have "round_half_even 1 = 1" by (simp add: round_half_even_def)
  finally show ?thesis by (simp add: smallest_double_def)
qed

lemma float_mul_0_8_smallest: "float_mul double_0_8 smallest_double = smallest_double"
proof -
  have s: "smallest_double = 2 * 2 powi (- 1075)"
    using powi_Suc [of "- 1075"] by (simp add: smallest_double_def)
  have lo: "1 \<le> 2 * double_0_8" and hi: "double_0_8 < 1" and pos: "0 < double_0_8"
    by (simp_all add: double_0_8_def)
  have p: "0 < (2::real) powi (- 1075)" by simp
  have x: "0 < double_0_8 * smallest_double"
    using pos smallest_double_pos by simp
  have "round_double (double_0_8 * smallest_double) =
      of_int (round_half_even (double_0_8 * smallest_double / 2 powi (max (- 1075) (- 1022) - 52)))
        * 2 powi (max (- 1075) (- 1022) - 52)"
  proof (rule round_double_eval [OF x])
    have "2 powi (- 1075) * 1 \<le> 2 powi (- 1075) * (2 * double_0_8)"
      using lo p by (intro mult_left_mono) simp_all
    then show "2 powi (- 1075) \<le> double_0_8 * smallest_double"
      unfolding s by (simp add: mult.commute mult.left_commute)
    have "double_0_8 * smallest_double < 1 * smallest_double"
      using hi smallest_double_pos by (intro mult_strict_right_mono) simp_all
    then show "double_0_8 * smallest_double < 2 powi (- 1075 + 1)"
      by (simp add: smallest_double_def)
  qed
  also have "max (- 1075) (- 1022) - 52 = (- 1074 :: int)" by simp
  also have "double_0_8 * smallest_double / 2 powi (- 1074) = double_0_8"
    by (simp add: smallest_double_def)
  also have "round_half_even double_0_8 = 1"
    by (simp add: round_half_even_def double_0_8_def Let_def)
  finally show ?thesis by (simp add: float_mul_def smallest_double_def)
qed

lemma float_mul_0_8_le:
  assumes "0 < b" "round_double b = b"
  shows "float_mul (round_double (8 / 10)) b \<le> b"
proof -
  have "0 < double_0_8 * b" "double_0_8 * b \<le> b"
    using assms(1) by (simp_all add: double_0_8_def)
  from round_double_le [OF this assms(2)] show ?thesis
    by (simp add: float_mul_def round_double_0_8)
qed

lemma ex_float_facts:
  "float_sub (15 / 2) 7 = 1 / 2"
  "float_sub (13 / 2) 7 = - (1 / 2)"
  "float_sub 6 7 = - 1"
  "float_mul (round_double (8 / 10)) 30 = 24"
  "float_mul (round_double (4 / 5)) 30 = 24"
  "round_double 30 = 30"
  by code_simp+

section \<open>Properties of the classifiers\<close>




text \<open>
  C5, as stated, fails: for the smallest positive double the product with 0.8 rounds
  back to the budget itself, so a cost equal to the budget is \<open>very_comfortable\<close> and
  not \<open>tight_but_possible\<close>.
\<close>

theorem budget_fit_label_counterexample:
  "0 < smallest_double \<and> round_double smallest_double = smallest_double \<and>
   budget_fit_label smallest_double smallest_double = ''very_comfortable'' \<and>
   budget_fit_label smallest_double smallest_double \<noteq> ''tight_but_possible''"
proof -
  have "budget_fit_label smallest_double smallest_double = ''very_comfortable''"
    using smallest_double_pos
    by (simp add: budget_fit_label_def round_double_0_8 float_mul_0_8_smallest)
  then show ?thesis
    by (simp add: smallest_double_pos round_double_smallest)
qed

text \<open>
  C5, amended. \<open>budget_fit_label\<close> is \<open>unknown\<close> for every budget that is not positive.
  For a positive budget, with the threshold being the float product of 0.8 and the budget:
  a cost up to and including the threshold is \<open>very_comfortable\<close>, a cost above the
  threshold and up to and including the budget is \<open>tight_but_possible\<close>, and a cost
  above the budget is \<open>over_budget\<close>. A cost equal to the budget is
  \<open>tight_but_possible\<close> whenever the threshold is below the budget.
\<close>

theorem budget_fit_label_cases:
  "(budget \<le> 0 \<longrightarrow> budget_fit_label total_cost budget = ''unknown'') \<and>
   (0 < budget \<and> total_cost \<le> float_mul (round_double (8 / 10)) budget \<longrightarrow>
      budget_fit_label total_cost budget = ''very_comfortable'') \<and>
   (0 < budget \<and> float_mul (round_double (8 / 10)) budget < total_cost \<and> total_cost \<le> budget \<longrightarrow>
      budget_fit_label total_cost budget = ''tight_but_possible'') \<and>
   (0 < budget \<and> round_double budget = budget \<and> budget < total_cost \<longrightarrow>
      budget_fit_label total_cost budget = ''over_budget'') \<and>
   (0 < budget \<longrightarrow>
      budget_fit_label (float_mul (round_double (8 / 10)) budget) budget = ''very_comfortable'') \<and>
   (0 < budget \<and> float_mul (round_double (8 / 10)) budget < budget \<longrightarrow>
      budget_fit_label budget budget = ''tight_but_possible'')"
proof -
  have over: "budget_fit_label total_cost budget = ''over_budget''"
    if "0 < budget" "round_double budget = budget" "budget < total_cost"
  proof -
    from float_mul_0_8_le [OF that(1,2)] that(3)
    have "float_mul (round_double (8 / 10)) budget < total_cost" by simp
    with that show ?thesis by (simp add: budget_fit_label_def)
  qed
  show ?thesis
    using over by (simp add: budget_fit_label_def)
qed

theorem budget_fit_label_cases_witness:
  "(0::real) \<le> 0 \<and> budget_fit_label 25 0 = ''unknown'' \<and>
   (0::real) < 30 \<and> 24 \<le> float_mul (round_double (8 / 10)) 30 \<and>
   budget_fit_label 24 30 = ''very_comfortable'' \<and>
   float_mul (round_double (8 / 10)) 30 < 25 \<and> (25::real) \<le> 30 \<and>
   budget_fit_label 25 30 = ''tight_but_possible'' \<and>
   round_double 30 = 30 \<and> (30::real) < 31 \<and> budget_fit_label 31 30 = ''over_budget'' \<and>
   float_mul (round_double (8 / 10)) 30 < 30 \<and>
   budget_fit_label 30 30 = ''tight_but_possible''"
  using budget_fit_label_cases [where budget = 0 and total_cost = 25]
        budget_fit_label_cases [where budget = 30 and total_cost = 24]
        budget_fit_label_cases [where budget = 30 and total_cost = 25]
        budget_fit_label_cases [where budget = 30 and total_cost = 31]
  by (simp add: ex_float_facts)

section \<open>Structure of a successful request\<close>

lemma and_then_Inr: "and_then x f = Inr y \<longleftrightarrow> (\<exists>v. x = Inr v \<and> f v = Inr y)"
  by (cases x) (simp_all add: and_then_def)

lemma requested_count_range:
  assumes "requested_count sc data = Inr n"
  shows "1 \<le> n \<and> n \<le> 15"
  using assms by (auto simp: requested_count_def and_then_Inr)

lemma recommend_OkD:
  assumes "recommend sc countries body = Inr (Ok resp)"
  shows "\<exists>data cc prof clusters n.
           request_data body = Inr data \<and> country_code_of data = Inr cc \<and>
           COUNTRY_BY_CODE countries cc \<noteq> None \<and>
           build_profile sc data cc = Inr (prof, clusters) \<and>
           requested_count sc data = Inr n \<and>
           student_profile resp = prof \<and>
           recommendations resp =
             select_items (course_items countries prof (matches countries prof clusters)) n \<and>
           total_matches_before_limit (response_stats resp) =
             length (matches countries prof clusters) \<and>
           total_shown (response_stats resp) = length (recommendations resp) \<and>
           safe_count (response_stats resp) = count_band ''safe'' (recommendations resp) \<and>
           moderate_count (response_stats resp) = count_band ''moderate'' (recommendations resp) \<and>
           ambitious_count (response_stats resp) = count_band ''ambitious'' (recommendations resp)"
  using assms
  by (auto simp: recommend_def and_then_def Let_def split: sum.splits option.splits prod.splits)


lemma classify_level_Some_cases:
  "classify_level x (Some m) = ''safe'' \<or> classify_level x (Some m) = ''moderate'' \<or>
   classify_level x (Some m) = ''ambitious'' \<or> classify_level x (Some m) = ''reject''"
  by (simp add: classify_level_def Let_def)

lemma classify_level_or_0:
  "classify_level x mo = ''reject'' \<longleftrightarrow> mo \<noteq> None \<and> classify_level x (Some (or_0 mo)) = ''reject''"
  by (cases mo) (simp_all add: classify_level_def or_0_def)

lemma build_course_response_level:
  assumes "build_course_response countries mg prof = Some c"
  shows "level_band c = classify_level (cgpa prof) (Some (or_0 (min_cgpa_india (m_course mg))))"
    and "level_band c \<noteq> ''reject''"
  using assms
  by (auto simp: build_course_response_def Let_def split: if_splits prod.splits)

lemma build_course_response_None:
  "build_course_response countries mg prof = None \<longleftrightarrow>
     classify_level (cgpa prof) (Some (or_0 (min_cgpa_india (m_course mg)))) = ''reject''"
  by (auto simp: build_course_response_def Let_def split: if_splits prod.splits)

lemma hard_filter_not_reject:
  assumes "hard_filter cc clusters backlogs x mg"
  shows "classify_level x (Some (or_0 (min_cgpa_india (m_course mg)))) \<noteq> ''reject''"
  using assms by (auto simp: hard_filter_def Let_def split: if_splits)

lemma matches_not_reject:
  assumes "mg \<in> set (matches countries prof clusters)"
  shows "classify_level (cgpa prof) (Some (or_0 (min_cgpa_india (m_course mg)))) \<noteq> ''reject''"
  using assms hard_filter_not_reject by (auto simp: matches_def)

lemma course_items_band:
  assumes "c \<in> set (course_items countries prof ms)"
  shows "level_band c = ''safe'' \<or> level_band c = ''moderate'' \<or> level_band c = ''ambitious''"
proof -
  from assms obtain mg where "build_course_response countries mg prof = Some c"
    by (auto simp: course_items_def map_filter_def)
  from build_course_response_level [OF this] classify_level_Some_cases
  show ?thesis by metis
qed

lemma map_filter_all_Some:
  assumes "\<And>x. x \<in> set xs \<Longrightarrow> f x \<noteq> None"
  shows "length (List.map_filter f xs) = length xs"
  using assms by (induction xs) (auto simp: map_filter_simps split: option.splits)

lemma select_items_subset: "set (select_items items n) \<subseteq> set items"
proof -
  have "set (take (nat n) (sort_items items)) \<subseteq> set items"
    using set_take_subset [of "nat n" "sort_items items"] by (simp add: sort_items_def)
  moreover have "ambitious_items items \<noteq> [] \<Longrightarrow> hd (ambitious_items items) \<in> set items"
    using hd_in_set [of "ambitious_items items"] by (auto simp: ambitious_items_def)
  ultimately show ?thesis
    by (auto simp: select_items_def Let_def)
qed

lemma count_band_total:
  assumes "\<And>c. c \<in> set items \<Longrightarrow>
             level_band c = ''safe'' \<or> level_band c = ''moderate'' \<or> level_band c = ''ambitious''"
  shows "count_band ''safe'' items + count_band ''moderate'' items + count_band ''ambitious'' items
           = length items"
  using assms
proof (induction items)
  case Nil
  show ?case by (simp add: count_band_def)
next
  case (Cons c cs)
  then have "count_band ''safe'' cs + count_band ''moderate'' cs + count_band ''ambitious'' cs = length cs"
    by simp
  moreover from Cons.prems [of c]
  have "level_band c = ''safe'' \<or> level_band c = ''moderate'' \<or> level_band c = ''ambitious''"
    by simp
  ultimately show ?case
    by (auto simp: count_band_def)
qed

lemma sorted_sort_items: "sorted (map sort_key_of (sort_items items))"
  unfolding sort_items_def sort_key_of_def by (rule sorted_sort_key)

lemma sorted_take_keys: "sorted (map sort_key_of (take k (sort_items items)))"
  using sorted_sort_items [of items]
  by (simp add: take_map [symmetric])

lemma sorted_select_items:
  assumes "\<And>c. c \<in> set items \<Longrightarrow>
             level_band c = ''safe'' \<or> level_band c = ''moderate'' \<or> level_band c = ''ambitious''"
  shows "sorted (map sort_key_of (select_items items n))"
proof (cases "\<not> list_ex (\<lambda>c. level_band c = ''ambitious'') (take (nat n) (sort_items items))
               \<and> ambitious_items items \<noteq> []")
  case False
  then have "select_items items n = take (nat n) (sort_items items)"
    by (auto simp: select_items_def Let_def)
  then show ?thesis by (simp add: sorted_take_keys)
next
  case True
  let ?top = "take (nat n) (sort_items items)"
  let ?a = "hd (ambitious_items items)"
  from True have sel: "select_items items n = ?top @ [?a]"
    by (simp add: select_items_def Let_def)
  from True have "?a \<in> set (ambitious_items items)" by simp
  then have a: "level_band ?a = ''ambitious''" by (simp add: ambitious_items_def)
  have "sort_key_of x \<le> sort_key_of ?a" if x: "x \<in> set ?top" for x
  proof -
    from x have "x \<in> set items"
      using set_take_subset [of "nat n" "sort_items items"] by (auto simp: sort_items_def)
    from assms [OF this] True x have "level_band x = ''safe'' \<or> level_band x = ''moderate''"
      by (auto simp: list_ex_iff)
    then show ?thesis using a
      by (auto simp: sort_key_of_def level_order_def less_eq_prod_def)
  qed
  then show ?thesis
    unfolding sel using sorted_take_keys [of "nat n" items]
    by (simp add: sorted_append)
qed

lemma recommendations_bands:
  assumes "recommend sc countries body = Inr (Ok resp)" and "c \<in> set (recommendations resp)"
  shows "level_band c = ''safe'' \<or> level_band c = ''moderate'' \<or> level_band c = ''ambitious''"
proof -
  from recommend_OkD [OF assms(1)] obtain prof clusters n where
    "recommendations resp = select_items (course_items countries prof (matches countries prof clusters)) n"
    by blast
  with assms(2) select_items_subset
  have "c \<in> set (course_items countries prof (matches countries prof clusters))" by fastforce
  then show ?thesis by (rule course_items_band)
qed

section \<open>The example, evaluated\<close>

lemma ex_request_data: "request_data (JObj ex_data) = Inr ex_data"
  by code_simp

lemma ex_country_code: "country_code_of ex_data = Inr ''UK''"
  by code_simp

lemma ex_country_known: "COUNTRY_BY_CODE ex_catalog ''UK'' = Some ex_country"
  by code_simp

lemma ex_build_profile: "build_profile ex_conv ex_data ''UK'' = Inr (ex_profile, [])"
  by code_simp

lemma ex_requested_count: "requested_count ex_conv ex_data = Inr 2"
  by code_simp

lemma ex_flat_courses:
  "flat_courses ex_catalog =
     [ex_merged (ex_course ''amb1'' (33 / 4) 30), ex_merged (ex_course ''amb2'' (17 / 2) 10),
      ex_merged (ex_course ''safe1'' 7 20), ex_merged (ex_course ''mod1'' (15 / 2) 15),
      ex_merged (ex_course ''rej1'' 9 5), ex_merged ex_open]"
  by code_simp

lemma ex_hard_filter:
  "hard_filter ''UK'' [] 0 8 (ex_merged (ex_course ''amb1'' (33 / 4) 30))"
  "hard_filter ''UK'' [] 0 8 (ex_merged (ex_course ''amb2'' (17 / 2) 10))"
  "hard_filter ''UK'' [] 0 8 (ex_merged (ex_course ''safe1'' 7 20))"
  "hard_filter ''UK'' [] 0 8 (ex_merged (ex_course ''mod1'' (15 / 2) 15))"
  "\<not> hard_filter ''UK'' [] 0 8 (ex_merged (ex_course ''rej1'' 9 5))"
  "hard_filter ''UK'' [] 0 8 (ex_merged ex_open)"
  by code_simp+

lemma ex_matches:
  "matches ex_catalog ex_profile [] =
     [ex_merged (ex_course ''amb1'' (33 / 4) 30), ex_merged (ex_course ''amb2'' (17 / 2) 10),
      ex_merged (ex_course ''safe1'' 7 20), ex_merged (ex_course ''mod1'' (15 / 2) 15),
      ex_merged ex_open]"
proof -
  have p: "country_code ex_profile = ''UK''" "backlogs_count ex_profile = 0" "cgpa ex_profile = 8"
    by (simp_all add: ex_profile_def)
  show ?thesis
    unfolding matches_def p by (subst ex_flat_courses) (simp add: ex_hard_filter)
qed

lemma ex_cards:
  "build_course_response ex_catalog (ex_merged (ex_course ''amb1'' (33 / 4) 30)) ex_profile
     = Some (ex_card ''amb1'' ''ambitious'' 30 ''tight_but_possible'')"
  "build_course_response ex_catalog (ex_merged (ex_course ''amb2'' (17 / 2) 10)) ex_profile
     = Some (ex_card ''amb2'' ''ambitious'' 10 ''very_comfortable'')"
  "build_course_response ex_catalog (ex_merged (ex_course ''safe1'' 7 20)) ex_profile
     = Some (ex_card ''safe1'' ''safe'' 20 ''very_comfortable'')"
  "build_course_response ex_catalog (ex_merged (ex_course ''mod1'' (15 / 2) 15)) ex_profile
     = Some (ex_card ''mod1'' ''moderate'' 15 ''very_comfortable'')"
  "build_course_response ex_catalog (ex_merged ex_open) ex_profile
     = Some (ex_card ''open1'' ''safe'' 12 ''very_comfortable'')"
  by code_simp+

lemma ex_open_no_minimum: "min_cgpa_india (m_course (ex_merged ex_open)) = None"
  by (simp add: ex_merged_def ex_open_def ex_course_def)

lemma ex_course_items:
  "course_items ex_catalog ex_profile (matches ex_catalog ex_profile []) = ex_pool"
  unfolding ex_matches course_items_def
  by (simp add: map_filter_simps ex_cards ex_pool_def)

lemma ex_select_items:
  "select_items ex_pool 2 = recommendations ex_response"
  by code_simp

lemma ex_stats:
  "\<lparr>total_matches_before_limit = length (matches ex_catalog ex_profile []),
    total_shown = length (recommendations ex_response),
    safe_count = count_band ''safe'' (recommendations ex_response),
    moderate_count = count_band ''moderate'' (recommendations ex_response),
    ambitious_count = count_band ''ambitious'' (recommendations ex_response)\<rparr>
   = response_stats ex_response"
  unfolding ex_matches by code_simp

lemma ex_recommend: "recommend ex_conv ex_catalog (JObj ex_data) = Inr (Ok ex_response)"
proof -
  have "recommend ex_conv ex_catalog (JObj ex_data) =
      Inr (Ok \<lparr>student_profile = ex_profile,
               response_stats = response_stats ex_response,
               recommendations = recommendations ex_response\<rparr>)"
    unfolding recommend_def
    by (simp add: and_then_def ex_request_data ex_country_code ex_country_known
        ex_build_profile ex_requested_count ex_course_items ex_select_items ex_stats Let_def)
  also have "\<lparr>student_profile = ex_profile,
               response_stats = response_stats ex_response,
               recommendations = recommendations ex_response\<rparr> = ex_response"
    by (simp add: ex_response_def)
  finally show ?thesis .
qed

section \<open>Properties of the pipeline\<close>

text \<open>
  C7. The hard filter keeps no course whose minimum CGPA classifies the profile's CGPA as
  \<open>reject\<close>, whether the minimum is read as it is or with a missing value taken as 0;
  \<open>build_course_response\<close> returns no card with band \<open>reject\<close>, and no card of a
  response has that band.
\<close>

theorem no_reject_emitted:
  "(mg \<in> set (matches countries prof clusters) \<longrightarrow>
      classify_level (cgpa prof) (min_cgpa_india (m_course mg)) \<noteq> ''reject'' \<and>
      classify_level (cgpa prof) (Some (or_0 (min_cgpa_india (m_course mg)))) \<noteq> ''reject'') \<and>
   (build_course_response countries mg prof = Some c \<longrightarrow> level_band c \<noteq> ''reject'') \<and>
   (recommend sc countries body = Inr (Ok resp) \<longrightarrow>
      ''reject'' \<notin> set (map level_band (recommendations resp)))"
proof (intro conjI impI)
  assume m: "mg \<in> set (matches countries prof clusters)"
  from matches_not_reject [OF m]
  show "classify_level (cgpa prof) (Some (or_0 (min_cgpa_india (m_course mg)))) \<noteq> ''reject''" .
  then show "classify_level (cgpa prof) (min_cgpa_india (m_course mg)) \<noteq> ''reject''"
    using classify_level_or_0 by blast
next
  assume "build_course_response countries mg prof = Some c"
  then show "level_band c \<noteq> ''reject''" by (rule build_course_response_level(2))
next
  assume r: "recommend sc countries body = Inr (Ok resp)"
  show "''reject'' \<notin> set (map level_band (recommendations resp))"
  proof
    assume "''reject'' \<in> set (map level_band (recommendations resp))"
    then obtain x where x: "x \<in> set (recommendations resp)" and "level_band x = ''reject''"
      by auto
    with recommendations_bands [OF r x] show False by simp
  qed
qed

theorem no_reject_emitted_witness:
  "ex_merged ex_open \<in> set (matches ex_catalog ex_profile []) \<and>
   classify_level (cgpa ex_profile) (min_cgpa_india (m_course (ex_merged ex_open))) \<noteq> ''reject'' \<and>
   build_course_response ex_catalog (ex_merged ex_open) ex_profile
     = Some (ex_card ''open1'' ''safe'' 12 ''very_comfortable'') \<and>
   level_band (ex_card ''open1'' ''safe'' 12 ''very_comfortable'') \<noteq> ''reject'' \<and>
   recommend ex_conv ex_catalog (JObj ex_data) = Inr (Ok ex_response) \<and>
   ''reject'' \<notin> set (map level_band (recommendations ex_response))"
proof -
  have h1: "ex_merged ex_open \<in> set (matches ex_catalog ex_profile [])"
    by (simp add: ex_matches)
  have h2: "build_course_response ex_catalog (ex_merged ex_open) ex_profile
     = Some (ex_card ''open1'' ''safe'' 12 ''very_comfortable'')"
    by (rule ex_cards(5))
  show ?thesis
    using h1 h2 ex_recommend
      no_reject_emitted [of "ex_merged ex_open" ex_catalog ex_profile "[]"
        "ex_card ''open1'' ''safe'' 12 ''very_comfortable''" ex_conv "JObj ex_data" ex_response]
    by blast
qed

text \<open>
  C9. For every course that passes the hard filter \<open>build_course_response\<close> returns a
  card, so the list of cards before truncation is as long as the list of matches, which is
  the number reported as \<open>total_matches_before_limit\<close>.
\<close>

theorem filtered_matches_build_cards:
  "(mg \<in> set (matches countries prof clusters) \<longrightarrow>
      build_course_response countries mg prof \<noteq> None) \<and>
   length (course_items countries prof (matches countries prof clusters))
     = length (matches countries prof clusters) \<and>
   (recommend sc countries body = Inr (Ok resp) \<longrightarrow>
      (\<exists>data cc prof' clusters'.
         request_data body = Inr data \<and> country_code_of data = Inr cc \<and>
         build_profile sc data cc = Inr (prof', clusters') \<and>
         total_matches_before_limit (response_stats resp)
           = length (course_items countries prof' (matches countries prof' clusters'))))"
proof -
  have a: "build_course_response countries x p \<noteq> None"
    if "x \<in> set (matches countries p cl)" for x p cl
    using matches_not_reject [OF that] by (simp add: build_course_response_None)
  have b: "length (course_items countries p (matches countries p cl))
             = length (matches countries p cl)" for p cl
    unfolding course_items_def by (rule map_filter_all_Some) (rule a)
  show ?thesis
  proof (intro conjI impI)
    assume "mg \<in> set (matches countries prof clusters)"
    then show "build_course_response countries mg prof \<noteq> None" by (rule a)
  next
    show "length (course_items countries prof (matches countries prof clusters))
            = length (matches countries prof clusters)" by (rule b)
  next
    assume r: "recommend sc countries body = Inr (Ok resp)"
    from recommend_OkD [OF r] obtain data cc p cl where
      "request_data body = Inr data" "country_code_of data = Inr cc"
      "build_profile sc data cc = Inr (p, cl)"
      "total_matches_before_limit (response_stats resp) = length (matches countries p cl)"
      by blast
    then show "\<exists>data cc prof' clusters'.
         request_data body = Inr data \<and> country_code_of data = Inr cc \<and>
         build_profile sc data cc = Inr (prof', clusters') \<and>
         total_matches_before_limit (response_stats resp)
           = length (course_items countries prof' (matches countries prof' clusters'))"
      using b by metis
  qed
qed

theorem filtered_matches_build_cards_witness:
  "min_cgpa_india (m_course (ex_merged ex_open)) = None \<and>
   ex_merged ex_open \<in> set (matches ex_catalog ex_profile []) \<and>
   build_course_response ex_catalog (ex_merged ex_open) ex_profile \<noteq> None \<and>
   recommend ex_conv ex_catalog (JObj ex_data) = Inr (Ok ex_response) \<and>
   total_matches_before_limit (response_stats ex_response)
     = length (course_items ex_catalog ex_profile (matches ex_catalog ex_profile []))"
proof -
  have h1: "ex_merged ex_open \<in> set (matches ex_catalog ex_profile [])"
    by (simp add: ex_matches)
  note t = filtered_matches_build_cards [of "ex_merged ex_open" ex_catalog ex_profile "[]"
        ex_conv "JObj ex_data" ex_response]
  from t ex_recommend obtain data cc p cl where
    d: "request_data (JObj ex_data) = Inr data" and c: "country_code_of data = Inr cc" and
    b: "build_profile ex_conv data cc = Inr (p, cl)" and
    n: "total_matches_before_limit (response_stats ex_response)
           = length (course_items ex_catalog p (matches ex_catalog p cl))"
    by blast
  from d have "data = ex_data" by (simp add: ex_request_data)
  with c have "cc = ''UK''" by (simp add: ex_country_code)
  with b \<open>data = ex_data\<close> have "p = ex_profile" "cl = []" by (simp_all add: ex_build_profile)
  with n h1 t ex_recommend ex_open_no_minimum show ?thesis by blast
qed

text \<open>
  C10. A card's band is the classification of the CGPA against the course minimum with a
  missing minimum taken as 0, so it is never \<open>unknown\<close>; in every response the counts
  of safe, moderate and ambitious cards add up to \<open>total_shown\<close>.
\<close>

theorem no_unknown_band_and_counts:
  "(build_course_response countries mg prof = Some c \<longrightarrow>
      level_band c = classify_level (cgpa prof) (Some (or_0 (min_cgpa_india (m_course mg)))) \<and>
      level_band c \<noteq> ''unknown'') \<and>
   (recommend sc countries body = Inr (Ok resp) \<longrightarrow>
      ''unknown'' \<notin> set (map level_band (recommendations resp)) \<and>
      safe_count (response_stats resp) + moderate_count (response_stats resp)
        + ambitious_count (response_stats resp) = total_shown (response_stats resp))"
proof (intro conjI impI)
  assume b: "build_course_response countries mg prof = Some c"
  show l: "level_band c = classify_level (cgpa prof) (Some (or_0 (min_cgpa_india (m_course mg))))"
    using b by (rule build_course_response_level(1))
  show "level_band c \<noteq> ''unknown''"
    unfolding l by (simp add: classify_level_def Let_def)
next
  assume r: "recommend sc countries body = Inr (Ok resp)"
  show "''unknown'' \<notin> set (map level_band (recommendations resp))"
  proof
    assume "''unknown'' \<in> set (map level_band (recommendations resp))"
    then obtain x where x: "x \<in> set (recommendations resp)" and "level_band x = ''unknown''"
      by auto
    with recommendations_bands [OF r x] show False by simp
  qed
next
  assume r: "recommend sc countries body = Inr (Ok resp)"
  from recommend_OkD [OF r] have
    "total_shown (response_stats resp) = length (recommendations resp)"
    "safe_count (response_stats resp) = count_band ''safe'' (recommendations resp)"
    "moderate_count (response_stats resp) = count_band ''moderate'' (recommendations resp)"
    "ambitious_count (response_stats resp) = count_band ''ambitious'' (recommendations resp)"
    by auto
  moreover have "count_band ''safe'' (recommendations resp)
      + count_band ''moderate'' (recommendations resp)
      + count_band ''ambitious'' (recommendations resp) = length (recommendations resp)"
    by (rule count_band_total) (rule recommendations_bands [OF r])
  ultimately show "safe_count (response_stats resp) + moderate_count (response_stats resp)
        + ambitious_count (response_stats resp) = total_shown (response_stats resp)"
    by simp
qed

theorem no_unknown_band_and_counts_witness:
  "min_cgpa_india (m_course (ex_merged ex_open)) = None \<and>
   build_course_response ex_catalog (ex_merged ex_open) ex_profile
     = Some (ex_card ''open1'' ''safe'' 12 ''very_comfortable'') \<and>
   level_band (ex_card ''open1'' ''safe'' 12 ''very_comfortable'') \<noteq> ''unknown'' \<and>
   recommend ex_conv ex_catalog (JObj ex_data) = Inr (Ok ex_response) \<and>
   ''unknown'' \<notin> set (map level_band (recommendations ex_response)) \<and>
   safe_count (response_stats ex_response) + moderate_count (response_stats ex_response)
     + ambitious_count (response_stats ex_response) = total_shown (response_stats ex_response)"
proof -
  have h: "build_course_response ex_catalog (ex_merged ex_open) ex_profile
     = Some (ex_card ''open1'' ''safe'' 12 ''very_comfortable'')"
    by (rule ex_cards(5))
  show ?thesis
    using h ex_recommend ex_open_no_minimum
      no_unknown_band_and_counts [of ex_catalog "ex_merged ex_open" ex_profile
        "ex_card ''open1'' ''safe'' 12 ''very_comfortable''" ex_conv "JObj ex_data" ex_response]
    by blast
qed

text \<open>
  C8. The recommendations of a response are in ascending order of the pair (rank of the
  band, total first-year cost), with ranks safe 0, moderate 1, ambitious 2, unknown 3: no
  moderate card stands before a safe one, and among cards of one band the cost never
  decreases.
\<close>

theorem recommendations_sorted:
  assumes "recommend sc countries body = Inr (Ok resp)"
  shows "sorted (map (\<lambda>c. (level_order (level_band c), total_first_year_cost_lakhs c))
                  (recommendations resp)) \<and>
         level_order ''safe'' = 0 \<and> level_order ''moderate'' = 1 \<and>
         level_order ''ambitious'' = 2 \<and> level_order ''unknown'' = 3 \<and>
         (\<forall>i j. i < j \<and> j < length (recommendations resp) \<longrightarrow>
            \<not> (level_band (recommendations resp ! i) = ''moderate'' \<and>
               level_band (recommendations resp ! j) = ''safe'') \<and>
            (level_band (recommendations resp ! i) = level_band (recommendations resp ! j) \<longrightarrow>
               total_first_year_cost_lakhs (recommendations resp ! i)
                 \<le> total_first_year_cost_lakhs (recommendations resp ! j)))"
proof -
  let ?rs = "recommendations resp"
  from recommend_OkD [OF assms] obtain prof clusters n where
    rs: "?rs = select_items (course_items countries prof (matches countries prof clusters)) n"
    by blast
  have s: "sorted (map sort_key_of ?rs)"
    unfolding rs by (rule sorted_select_items) (rule course_items_band)
  have ord: "sort_key_of (?rs ! i) \<le> sort_key_of (?rs ! j)" if "i < j" "j < length ?rs" for i j
    using sorted_nth_mono [OF s, of i j] that by simp
  have pair: "\<not> (level_band (?rs ! i) = ''moderate'' \<and> level_band (?rs ! j) = ''safe'') \<and>
      (level_band (?rs ! i) = level_band (?rs ! j) \<longrightarrow>
         total_first_year_cost_lakhs (?rs ! i) \<le> total_first_year_cost_lakhs (?rs ! j))"
    if "i < j" "j < length ?rs" for i j
  proof -
    from ord [OF that] have le:
      "level_order (level_band (?rs ! i)) < level_order (level_band (?rs ! j)) \<or>
       level_order (level_band (?rs ! i)) \<le> level_order (level_band (?rs ! j)) \<and>
       total_first_year_cost_lakhs (?rs ! i) \<le> total_first_year_cost_lakhs (?rs ! j)"
      by (simp add: sort_key_of_def less_eq_prod_def)
    have a: "\<not> (level_band (?rs ! i) = ''moderate'' \<and> level_band (?rs ! j) = ''safe'')"
    proof
      assume "level_band (?rs ! i) = ''moderate'' \<and> level_band (?rs ! j) = ''safe''"
      then have "level_order (level_band (?rs ! i)) = 1" "level_order (level_band (?rs ! j)) = 0"
        by (simp_all add: level_order_def)
      with le show False by simp
    qed
    have b: "total_first_year_cost_lakhs (?rs ! i) \<le> total_first_year_cost_lakhs (?rs ! j)"
      if "level_band (?rs ! i) = level_band (?rs ! j)"
      using le that by simp
    from a b show ?thesis by blast
  qed
  have lo: "level_order ''safe'' = 0 \<and> level_order ''moderate'' = 1 \<and>
         level_order ''ambitious'' = 2 \<and> level_order ''unknown'' = 3"
    by (simp add: level_order_def)
  from s have "sorted (map (\<lambda>c. (level_order (level_band c), total_first_year_cost_lakhs c)) ?rs)"
    by (simp add: sort_key_of_def [abs_def])
  with lo pair show ?thesis by blast
qed

theorem recommendations_sorted_witness:
  "recommend ex_conv ex_catalog (JObj ex_data) = Inr (Ok ex_response) \<and>
   sorted (map (\<lambda>c. (level_order (level_band c), total_first_year_cost_lakhs c))
             (recommendations ex_response)) \<and>
   map (\<lambda>c. (level_order (level_band c), total_first_year_cost_lakhs c))
             (recommendations ex_response) = [(0, 12), (0, 20), (2, 30)]"
proof -
  have "map (\<lambda>c. (level_order (level_band c), total_first_year_cost_lakhs c))
             (recommendations ex_response) = [(0, 12), (0, 20), (2, 30)]"
    by code_simp
  with recommendations_sorted [OF ex_recommend] ex_recommend show ?thesis by blast
qed

section \<open>Selection of the shown cards\<close>

lemma band_mem_list_ex:
  "''ambitious'' \<in> set (map level_band xs) \<longleftrightarrow> list_ex (\<lambda>c. level_band c = ''ambitious'') xs"
  by (induction xs) auto

lemma ambitious_items_nonempty:
  "ambitious_items pool \<noteq> [] \<longleftrightarrow> ''ambitious'' \<in> set (map level_band pool)"
  by (induction pool) (auto simp: ambitious_items_def)

lemma select_items_cases:
  fixes pool :: "card list" and n :: int
  defines "tp \<equiv> take (nat n) (sort_items pool)"
  shows "if ''ambitious'' \<in> set (map level_band pool) \<and> ''ambitious'' \<notin> set (map level_band tp)
         then select_items pool n = tp @ [hd (filter (\<lambda>c. level_band c = ''ambitious'') pool)] \<and>
              level_band (hd (filter (\<lambda>c. level_band c = ''ambitious'') pool)) = ''ambitious'' \<and>
              length (filter (\<lambda>c. level_band c = ''ambitious'') (select_items pool n)) = 1 \<and>
              length (select_items pool n) = nat n + 1
         else select_items pool n = tp"
proof (cases "''ambitious'' \<in> set (map level_band pool) \<and> ''ambitious'' \<notin> set (map level_band tp)")
  case False
  then have "list_ex (\<lambda>c. level_band c = ''ambitious'') tp \<or> ambitious_items pool = []"
    using band_mem_list_ex [of tp] ambitious_items_nonempty [of pool] by blast
  then have "select_items pool n = tp"
    by (auto simp: select_items_def Let_def tp_def)
  with False show ?thesis by simp
next
  case True
  let ?amb = "filter (\<lambda>c. level_band c = ''ambitious'') pool"
  from True have ne: "?amb \<noteq> []"
    using ambitious_items_nonempty [of pool] by (simp add: ambitious_items_def)
  from True have none: "\<not> list_ex (\<lambda>c. level_band c = ''ambitious'') tp"
    using band_mem_list_ex [of tp] by blast
  from ne none have sel: "select_items pool n = tp @ [hd ?amb]"
    by (simp add: select_items_def Let_def tp_def ambitious_items_def)
  from hd_in_set [OF ne] have "hd ?amb \<in> {x \<in> set pool. level_band x = ''ambitious''}"
    by (simp only: set_filter)
  then have band: "level_band (hd ?amb) = ''ambitious''" by blast
  from none have "filter (\<lambda>c. level_band c = ''ambitious'') tp = []"
    by (auto simp: list_ex_iff filter_empty_conv)
  with sel band have one: "length (filter (\<lambda>c. level_band c = ''ambitious'') (select_items pool n)) = 1"
    by simp
  have "nat n < length (sort_items pool)"
  proof (rule ccontr)
    assume "\<not> nat n < length (sort_items pool)"
    then have "tp = sort_items pool" by (simp add: tp_def)
    then have "set tp = set pool" by (simp add: sort_items_def)
    with True show False by auto
  qed
  then have "length tp = nat n" by (simp add: tp_def)
  with sel have len: "length (select_items pool n) = nat n + 1" by simp
  from True sel band one len show ?thesis by simp
qed

text \<open>
  C3. Let the pool be the cards built from the matches, in catalog order, and the top the
  first \<open>requested_count\<close> cards of the sorted pool. When the pool holds an ambitious card
  and the top holds none, the recommendations are the top followed by the first ambitious
  card of the pool: one ambitious card in all, and \<open>requested_count + 1\<close> cards.
  Otherwise the recommendations are the top.
\<close>

theorem ambitious_card_appended:
  assumes "recommend sc countries body = Inr (Ok resp)"
  shows "\<exists>data cc prof clusters n.
           request_data body = Inr data \<and> country_code_of data = Inr cc \<and>
           build_profile sc data cc = Inr (prof, clusters) \<and>
           requested_count sc data = Inr n \<and> 1 \<le> n \<and> n \<le> 15 \<and>
           (let pool = course_items countries prof (matches countries prof clusters);
                top = take (nat n) (sort_items pool)
            in
            if ''ambitious'' \<in> set (map level_band pool) \<and>
               ''ambitious'' \<notin> set (map level_band top)
            then recommendations resp
                   = top @ [hd (filter (\<lambda>c. level_band c = ''ambitious'') pool)] \<and>
                 level_band (hd (filter (\<lambda>c. level_band c = ''ambitious'') pool)) = ''ambitious'' \<and>
                 length (filter (\<lambda>c. level_band c = ''ambitious'') (recommendations resp)) = 1 \<and>
                 length (recommendations resp) = nat n + 1
            else recommendations resp = top)"
proof -
  from recommend_OkD [OF assms] obtain data cc prof clusters n where
    d: "request_data body = Inr data" "country_code_of data = Inr cc"
       "build_profile sc data cc = Inr (prof, clusters)" and
    n: "requested_count sc data = Inr n" and
    rs: "recommendations resp
           = select_items (course_items countries prof (matches countries prof clusters)) n"
    by blast
  from requested_count_range [OF n] have r: "1 \<le> n" "n \<le> 15" by simp_all
  from select_items_cases [of "course_items countries prof (matches countries prof clusters)" n]
  have "let pool = course_items countries prof (matches countries prof clusters);
            top = take (nat n) (sort_items pool)
        in
        if ''ambitious'' \<in> set (map level_band pool) \<and>
           ''ambitious'' \<notin> set (map level_band top)
        then recommendations resp
               = top @ [hd (filter (\<lambda>c. level_band c = ''ambitious'') pool)] \<and>
             level_band (hd (filter (\<lambda>c. level_band c = ''ambitious'') pool)) = ''ambitious'' \<and>
             length (filter (\<lambda>c. level_band c = ''ambitious'') (recommendations resp)) = 1 \<and>
             length (recommendations resp) = nat n + 1
        else recommendations resp = top"
    unfolding rs Let_def .
  with d n r show ?thesis by blast
qed

theorem ambitious_card_appended_witness:
  "recommend ex_conv ex_catalog (JObj ex_data) = Inr (Ok ex_response) \<and>
   ''ambitious'' \<in> set (map level_band ex_pool) \<and>
   ''ambitious'' \<notin> set (map level_band (take 2 (sort_items ex_pool))) \<and>
   recommendations ex_response
     = take 2 (sort_items ex_pool) @ [hd (filter (\<lambda>c. level_band c = ''ambitious'') ex_pool)] \<and>
   length (recommendations ex_response) = 3"
proof -
  from ambitious_card_appended [OF ex_recommend] obtain data cc p cl n where
    d: "request_data (JObj ex_data) = Inr data" and c: "country_code_of data = Inr cc" and
    b: "build_profile ex_conv data cc = Inr (p, cl)" and
    n: "requested_count ex_conv data = Inr n" and
    t: "let pool = course_items ex_catalog p (matches ex_catalog p cl);
            top = take (nat n) (sort_items pool)
        in
        if ''ambitious'' \<in> set (map level_band pool) \<and>
           ''ambitious'' \<notin> set (map level_band top)
        then recommendations ex_response
               = top @ [hd (filter (\<lambda>c. level_band c = ''ambitious'') pool)] \<and>
             level_band (hd (filter (\<lambda>c. level_band c = ''ambitious'') pool)) = ''ambitious'' \<and>
             length (filter (\<lambda>c. level_band c = ''ambitious'') (recommendations ex_response)) = 1 \<and>
             length (recommendations ex_response) = nat n + 1
        else recommendations ex_response = top"
    by blast
  from d have e1: "data = ex_data" by (simp add: ex_request_data)
  with c have e2: "cc = ''UK''" by (simp add: ex_country_code)
  from b e1 e2 have e3: "p = ex_profile" "cl = []" by (simp_all add: ex_build_profile)
  from n e1 have e4: "n = 2" by (simp add: ex_requested_count)
  have h1: "''ambitious'' \<in> set (map level_band ex_pool)" by code_simp
  have h2: "''ambitious'' \<notin> set (map level_band (take 2 (sort_items ex_pool)))" by code_simp
  from t have t': "if ''ambitious'' \<in> set (map level_band ex_pool) \<and>
           ''ambitious'' \<notin> set (map level_band (take (nat 2) (sort_items ex_pool)))
        then recommendations ex_response
               = take (nat 2) (sort_items ex_pool)
                   @ [hd (filter (\<lambda>c. level_band c = ''ambitious'') ex_pool)] \<and>
             level_band (hd (filter (\<lambda>c. level_band c = ''ambitious'') ex_pool)) = ''ambitious'' \<and>
             length (filter (\<lambda>c. level_band c = ''ambitious'') (recommendations ex_response)) = 1 \<and>
             length (recommendations ex_response) = nat 2 + 1
        else recommendations ex_response = take (nat 2) (sort_items ex_pool)"
    unfolding e1 e2 e3 e4 ex_course_items Let_def .
  have two: "nat 2 = 2" by simp
  from h1 h2 have cond: "''ambitious'' \<in> set (map level_band ex_pool) \<and>
           ''ambitious'' \<notin> set (map level_band (take 2 (sort_items ex_pool)))"
    by blast
  note full = t' [unfolded two, unfolded if_P [OF cond]]
  from full have "length (recommendations ex_response) = 2 + 1" by blast
  then have "length (recommendations ex_response) = 3" by simp
  with full have
    "recommendations ex_response
       = take 2 (sort_items ex_pool) @ [hd (filter (\<lambda>c. level_band c = ''ambitious'') ex_pool)] \<and>
     length (recommendations ex_response) = 3"
    by blast
  with ex_recommend h1 h2 show ?thesis by blast
qed

section \<open>The English requirement\<close>

text \<open>
  C6. \<open>english_ok_for_course\<close> returns (False, True) when the proof type is missing,
  \<open>none\<close>, empty or not one of the five known types, whatever the score. For \<open>ielts\<close>,
  \<open>pte\<close> and \<open>duolingo\<close> it returns (True, False) when the course has no minimum for
  that test and otherwise (score at least the minimum, score below the minimum). For
  \<open>inter\<close> and \<open>medium\<close> it returns (True, False) exactly when the course accepts it and
  the country of the profile allows it, and (False, True) otherwise.
\<close>

theorem english_check_cases:
  "(english_proof_type prof = None \<or> english_proof_type prof = Some ''none'' \<or>
    english_proof_type prof = Some [] \<longrightarrow>
      english_ok_for_course countries crs prof = (False, True)) \<and>
   (english_proof_type prof \<notin>
      {Some ''ielts'', Some ''pte'', Some ''duolingo'', Some ''inter'', Some ''medium''} \<longrightarrow>
      english_ok_for_course countries crs prof = (False, True)) \<and>
   (english_proof_type prof = Some ''ielts'' \<longrightarrow>
      english_ok_for_course countries crs prof =
        (case min_ielts_overall crs of None \<Rightarrow> (True, False)
         | Some m \<Rightarrow> (english_score prof \<ge> m, english_score prof < m))) \<and>
   (english_proof_type prof = Some ''pte'' \<longrightarrow>
      english_ok_for_course countries crs prof =
        (case min_pte_overall crs of None \<Rightarrow> (True, False)
         | Some m \<Rightarrow> (english_score prof \<ge> m, english_score prof < m))) \<and>
   (english_proof_type prof = Some ''duolingo'' \<longrightarrow>
      english_ok_for_course countries crs prof =
        (case min_duolingo crs of None \<Rightarrow> (True, False)
         | Some m \<Rightarrow> (english_score prof \<ge> m, english_score prof < m))) \<and>
   (english_proof_type prof = Some ''inter'' \<or> english_proof_type prof = Some ''medium'' \<longrightarrow>
      english_ok_for_course countries crs prof =
        (if inter_english_ok crs \<and>
            (\<exists>c. COUNTRY_BY_CODE countries (country_code prof) = Some c \<and> allow_inter_english c)
         then (True, False) else (False, True)))"
proof -
  have eq: "(case COUNTRY_BY_CODE countries (country_code prof) of
               None \<Rightarrow> False | Some c \<Rightarrow> allow_inter_english c)
            \<longleftrightarrow> (\<exists>c. COUNTRY_BY_CODE countries (country_code prof) = Some c \<and> allow_inter_english c)"
    by (simp split: option.splits)
  show ?thesis
    unfolding english_ok_for_course_def Let_def eq
    by (cases "english_proof_type prof") simp_all
qed


theorem english_check_cases_witness:
  "english_proof_type ex_profile = Some ''ielts'' \<and>
   english_ok_for_course ex_catalog (ex_course ''safe1'' 7 20) ex_profile = (True, False) \<and>
   english_ok_for_course ex_catalog (ex_course ''safe1'' 7 20)
     (ex_profile\<lparr>english_score := 5\<rparr>) = (False, True) \<and>
   english_ok_for_course ex_catalog (ex_course ''safe1'' 7 20)
     (ex_profile\<lparr>english_proof_type := Some ''none'', english_score := 9\<rparr>) = (False, True) \<and>
   english_ok_for_course ex_catalog (ex_course ''safe1'' 7 20)
     (ex_profile\<lparr>english_proof_type := Some ''toefl'', english_score := 9\<rparr>) = (False, True) \<and>
   english_ok_for_course ex_catalog (ex_course ''safe1'' 7 20)
     (ex_profile\<lparr>english_proof_type := Some ''pte''\<rparr>) = (True, False) \<and>
   english_ok_for_course ex_catalog (ex_course ''safe1'' 7 20)
     (ex_profile\<lparr>english_proof_type := Some ''inter''\<rparr>) = (True, False) \<and>
   english_ok_for_course [] (ex_course ''safe1'' 7 20)
     (ex_profile\<lparr>english_proof_type := Some ''medium''\<rparr>) = (False, True)"
  using
    english_check_cases [of ex_profile ex_catalog "ex_course ''safe1'' 7 20"]
    english_check_cases [of "ex_profile\<lparr>english_score := 5\<rparr>" ex_catalog "ex_course ''safe1'' 7 20"]
    english_check_cases [of "ex_profile\<lparr>english_proof_type := Some ''none'', english_score := 9\<rparr>"
      ex_catalog "ex_course ''safe1'' 7 20"]
    english_check_cases [of "ex_profile\<lparr>english_proof_type := Some ''toefl'', english_score := 9\<rparr>"
      ex_catalog "ex_course ''safe1'' 7 20"]
    english_check_cases [of "ex_profile\<lparr>english_proof_type := Some ''pte''\<rparr>"
      ex_catalog "ex_course ''safe1'' 7 20"]
    english_check_cases [of "ex_profile\<lparr>english_proof_type := Some ''inter''\<rparr>"
      ex_catalog "ex_course ''safe1'' 7 20"]
    english_check_cases [of "ex_profile\<lparr>english_proof_type := Some ''medium''\<rparr>"
      "[]" "ex_course ''safe1'' 7 20"]
  by (simp add: ex_profile_def ex_course_def ex_catalog_def ex_country_def COUNTRY_BY_CODE_def)

section \<open>Parsing of the request\<close>

lemma take_append_exact: "length xs = k \<Longrightarrow> take k (xs @ ys) = xs"
  by simp

text \<open>
  C1, as stated, fails: a requested count of -3 is clamped to 1 and does not fall back to
  5, and the string \<open>abc\<close> is not clamped at all, the conversion raises and the request
  ends with that exception.
\<close>

theorem requested_count_counterexample:
  "requested_count ex_conv [(''requested_count'', JInt (- 3))] = Inr 1 \<and>
   requested_count ex_conv [(''requested_count'', JInt (- 3))] \<noteq> Inr 5 \<and>
   requested_count ex_conv [(''requested_count'', JStr ''abc'')] = Inl ValueError \<and>
   recommend ex_conv ex_catalog (JObj [(''requested_count'', JStr ''abc'')]) = Inl ValueError"
  by code_simp

text \<open>
  C1, amended. The requested count is 5 when the field is absent or falsy. When the value
  is truthy and \<^verbatim>\<open>int\<close> accepts it, the converted number is clamped into the range from
  1 to 15: a negative number gives 1, a number above 15 gives 15. Whenever a count is
  obtained it lies between 1 and 15, and in every response the first \<open>requested_count\<close>
  recommendations are the first \<open>requested_count\<close> cards of the sorted pool, followed by
  at most one more card.
\<close>

theorem requested_count_clamped:
  "(requested_count sc data = Inr n \<longrightarrow> 1 \<le> n \<and> n \<le> 15) \<and>
   (map_of (rev data) ''requested_count'' = None \<longrightarrow> requested_count sc data = Inr 5) \<and>
   (\<not> truthy (dict_get data ''requested_count'' (JInt 5)) \<longrightarrow> requested_count sc data = Inr 5) \<and>
   (truthy (dict_get data ''requested_count'' (JInt 5)) \<and>
    py_int sc (dict_get data ''requested_count'' (JInt 5)) = Inr k \<longrightarrow>
      requested_count sc data = Inr (max 1 (min k 15))) \<and>
   (dict_get data ''requested_count'' (JInt 5) = JInt k \<and> k < 0 \<longrightarrow>
      requested_count sc data = Inr 1) \<and>
   (dict_get data ''requested_count'' (JInt 5) = JInt k \<and> 1 \<le> k \<and> k \<le> 15 \<longrightarrow>
      requested_count sc data = Inr k) \<and>
   (dict_get data ''requested_count'' (JInt 5) = JInt k \<and> 15 < k \<longrightarrow>
      requested_count sc data = Inr 15) \<and>
   (recommend sc countries body = Inr (Ok resp) \<longrightarrow>
      (\<exists>dt cc prof clusters m.
         request_data body = Inr dt \<and> country_code_of dt = Inr cc \<and>
         build_profile sc dt cc = Inr (prof, clusters) \<and>
         requested_count sc dt = Inr m \<and> 1 \<le> m \<and> m \<le> 15 \<and>
         take (nat m) (recommendations resp)
           = take (nat m) (sort_items (course_items countries prof (matches countries prof clusters))) \<and>
         length (recommendations resp) \<le> nat m + 1))"
proof (intro conjI impI)
  assume "requested_count sc data = Inr n"
  then show "1 \<le> n" "n \<le> 15" using requested_count_range by blast+
next
  assume "map_of (rev data) ''requested_count'' = None"
  then show "requested_count sc data = Inr 5"
    by (simp add: requested_count_def dict_get_def py_or_def and_then_def)
next
  assume "\<not> truthy (dict_get data ''requested_count'' (JInt 5))"
  then show "requested_count sc data = Inr 5"
    by (simp add: requested_count_def py_or_def and_then_def)
next
  assume "truthy (dict_get data ''requested_count'' (JInt 5)) \<and>
    py_int sc (dict_get data ''requested_count'' (JInt 5)) = Inr k"
  then show "requested_count sc data = Inr (max 1 (min k 15))"
    by (simp add: requested_count_def py_or_def and_then_def)
next
  assume "dict_get data ''requested_count'' (JInt 5) = JInt k \<and> k < 0"
  then show "requested_count sc data = Inr 1"
    by (simp add: requested_count_def py_or_def and_then_def)
next
  assume "dict_get data ''requested_count'' (JInt 5) = JInt k \<and> 1 \<le> k \<and> k \<le> 15"
  then show "requested_count sc data = Inr k"
    by (simp add: requested_count_def py_or_def and_then_def)
next
  assume "dict_get data ''requested_count'' (JInt 5) = JInt k \<and> 15 < k"
  then show "requested_count sc data = Inr 15"
    by (simp add: requested_count_def py_or_def and_then_def)
next
  assume r: "recommend sc countries body = Inr (Ok resp)"
  from recommend_OkD [OF r] obtain dt cc prof clusters m where
    d: "request_data body = Inr dt" "country_code_of dt = Inr cc"
       "build_profile sc dt cc = Inr (prof, clusters)" and
    m: "requested_count sc dt = Inr m" and
    rs: "recommendations resp
           = select_items (course_items countries prof (matches countries prof clusters)) m"
    by blast
  let ?pool = "course_items countries prof (matches countries prof clusters)"
  let ?top = "take (nat m) (sort_items ?pool)"
  from requested_count_range [OF m] have rg: "1 \<le> m" "m \<le> 15" by simp_all
  have "take (nat m) (select_items ?pool m) = ?top \<and> length (select_items ?pool m) \<le> nat m + 1"
  proof (cases "''ambitious'' \<in> set (map level_band ?pool) \<and>
                ''ambitious'' \<notin> set (map level_band ?top)")
    case True
    note c = select_items_cases [of ?pool m, unfolded if_P [OF True]]
    from c have
      s: "select_items ?pool m = ?top @ [hd (filter (\<lambda>c. level_band c = ''ambitious'') ?pool)]"
      by blast
    from c have l: "length (select_items ?pool m) = nat m + 1" by blast
    from s have "length (select_items ?pool m) = Suc (length ?top)"
      by (simp only: length_append_singleton)
    with l have lt: "length ?top = nat m" by linarith
    have "take (nat m) (select_items ?pool m) = ?top"
      unfolding s by (rule take_append_exact [OF lt])
    with l show ?thesis by simp
  next
    case False
    from select_items_cases [of ?pool m, unfolded if_not_P [OF False]]
    have e: "select_items ?pool m = ?top" .
    have "take (nat m) ?top = ?top" by simp
    moreover have "length ?top \<le> nat m + 1" by simp
    ultimately show ?thesis unfolding e by blast
  qed
  with d m rg rs
  show "\<exists>dt cc prof clusters m.
         request_data body = Inr dt \<and> country_code_of dt = Inr cc \<and>
         build_profile sc dt cc = Inr (prof, clusters) \<and>
         requested_count sc dt = Inr m \<and> 1 \<le> m \<and> m \<le> 15 \<and>
         take (nat m) (recommendations resp)
           = take (nat m) (sort_items (course_items countries prof (matches countries prof clusters))) \<and>
         length (recommendations resp) \<le> nat m + 1"
    by metis
qed

theorem requested_count_clamped_witness:
  "requested_count ex_conv ex_data = Inr 2 \<and>
   map_of (rev []) ''requested_count'' = (None :: json option) \<and>
   requested_count ex_conv [] = Inr 5 \<and>
   \<not> truthy (dict_get [(''requested_count'', JInt 0)] ''requested_count'' (JInt 5)) \<and>
   requested_count ex_conv [(''requested_count'', JInt 0)] = Inr 5 \<and>
   py_int ex_conv (dict_get [(''requested_count'', JStr ''8'')] ''requested_count'' (JInt 5)) = Inr 8 \<and>
   requested_count ex_conv [(''requested_count'', JStr ''8'')] = Inr 8 \<and>
   requested_count ex_conv [(''requested_count'', JInt (- 3))] = Inr 1 \<and>
   requested_count ex_conv [(''requested_count'', JInt 100)] = Inr 15 \<and>
   recommend ex_conv ex_catalog (JObj ex_data) = Inr (Ok ex_response) \<and>
   take 2 (recommendations ex_response) = take 2 (sort_items ex_pool) \<and>
   length (recommendations ex_response) \<le> 3"
proof -
  note t = requested_count_clamped [where sc = ex_conv and countries = ex_catalog
      and body = "JObj ex_data" and resp = ex_response]
  have g0: "dict_get [(''requested_count'', JInt 0)] ''requested_count'' (JInt 5) = JInt 0"
    by code_simp
  have g1: "dict_get [(''requested_count'', JStr ''8'')] ''requested_count'' (JInt 5) = JStr ''8''"
    by code_simp
  have g2: "dict_get [(''requested_count'', JInt (- 3))] ''requested_count'' (JInt 5) = JInt (- 3)"
    by code_simp
  have g3: "dict_get [(''requested_count'', JInt 100)] ''requested_count'' (JInt 5) = JInt 100"
    by code_simp
  have g4: "py_int ex_conv (JStr ''8'') = Inr 8" by code_simp
  have a1: "requested_count ex_conv [] = Inr 5"
    using t [where data = "[]"] by simp
  have a2: "requested_count ex_conv [(''requested_count'', JInt 0)] = Inr 5"
    using t [where data = "[(''requested_count'', JInt 0)]"] g0 by simp
  have a3: "requested_count ex_conv [(''requested_count'', JStr ''8'')] = Inr 8"
    using t [where data = "[(''requested_count'', JStr ''8'')]" and k = 8] g1 g4 by simp
  have a4: "requested_count ex_conv [(''requested_count'', JInt (- 3))] = Inr 1"
    using t [where data = "[(''requested_count'', JInt (- 3))]" and k = "- 3"] g2 by simp
  have a5: "requested_count ex_conv [(''requested_count'', JInt 100)] = Inr 15"
    using t [where data = "[(''requested_count'', JInt 100)]" and k = 100] g3 by simp
  from t ex_recommend obtain dt cc p cl m where
    d: "request_data (JObj ex_data) = Inr dt" and c: "country_code_of dt = Inr cc" and
    b: "build_profile ex_conv dt cc = Inr (p, cl)" and
    m: "requested_count ex_conv dt = Inr m" and
    tk: "take (nat m) (recommendations ex_response)
           = take (nat m) (sort_items (course_items ex_catalog p (matches ex_catalog p cl)))" and
    ln: "length (recommendations ex_response) \<le> nat m + 1"
    by blast
  from d have e1: "dt = ex_data" by (simp add: ex_request_data)
  with c have e2: "cc = ''UK''" by (simp add: ex_country_code)
  from b e1 e2 have e3: "p = ex_profile" "cl = []" by (simp_all add: ex_build_profile)
  from m e1 have e4: "m = 2" by (simp add: ex_requested_count)
  have two: "nat 2 = 2" by simp
  from tk have a6: "take 2 (recommendations ex_response) = take 2 (sort_items ex_pool)"
    unfolding e3 e4 ex_course_items two .
  from ln have a7: "length (recommendations ex_response) \<le> 3"
    unfolding e4 by simp
  from a1 a2 a3 a4 a5 a6 a7 g0 g1 g4 ex_requested_count ex_recommend show ?thesis
    by simp
qed

text \<open>
  C2. The five numeric fields are read with a handler for \<^verbatim>\<open>ValueError\<close> only. A string
  that does not parse becomes 0, but \<^verbatim>\<open>null\<close> raises \<^verbatim>\<open>TypeError\<close>, which is not
  caught: the request with a null CGPA ends with that exception.
\<close>

theorem null_cgpa_raises:
  "try_float ex_conv (JStr ''abc'') = Inr 0 \<and>
   try_float ex_conv JNull = Inl TypeError \<and>
   recommend ex_conv ex_catalog (JObj [(''cgpa'', JNull)]) = Inl TypeError"
  by code_simp

end
